theory Spec2Isabelle
  imports Complex_Main
begin

section \<open>Strings as the extractor uses them\<close>

text \<open>
  Cell texts and field values are Python \<^verbatim>\<open>str\<close> objects. They are modelled as
  \<^typ>\<open>string\<close>, one character per list element. \<^verbatim>\<open>str.upper()\<close> is modelled on the
  ASCII letters (\<^verbatim>\<open>a\<close>..\<^verbatim>\<open>z\<close> become \<^verbatim>\<open>A\<close>..\<^verbatim>\<open>Z\<close>); every other character
  is left as it is. All keywords the extractor searches for are ASCII.
\<close>

definition upper_char :: "char \<Rightarrow> char" where
  "upper_char c =
     (case map_of (zip ''abcdefghijklmnopqrstuvwxyz'' ''ABCDEFGHIJKLMNOPQRSTUVWXYZ'') c of
        Some u \<Rightarrow> u | None \<Rightarrow> c)"

definition upper :: "string \<Rightarrow> string" where
  "upper s = map upper_char s"

text \<open>\<^verbatim>\<open>s.startswith(k)\<close>, and the substring test \<^verbatim>\<open>k in s\<close>.\<close>

fun startswith :: "string \<Rightarrow> string \<Rightarrow> bool" where
  "startswith s [] = True"
| "startswith [] (k # ks) = False"
| "startswith (c # cs) (k # ks) = (c = k \<and> startswith cs ks)"

fun isin :: "string \<Rightarrow> string \<Rightarrow> bool" where
  "isin k [] = (k = [])"
| "isin k (c # cs) = (startswith (c # cs) k \<or> isin k cs)"

text \<open>\<^verbatim>\<open>any(keyword in text.upper() for keyword in keywords)\<close>\<close>

definition any_keyword :: "string list \<Rightarrow> string \<Rightarrow> bool" where
  "any_keyword keywords text = list_ex (\<lambda>keyword. isin keyword (upper text)) keywords"

section \<open>RecordValidator: \<^verbatim>\<open>_validate_and_correct_issue_data\<close>\<close>

text \<open>
  The eight keys of an issue dictionary. A dictionary handed to the validator may lack
  some of them, so the input is a partial map; after the first loop of the validator all
  eight are present, so from there on the dictionary is a total function on the keys.
\<close>

datatype field = Title | Type | Priority | Status | Deadline | Due_Date | Created_By | Created_On

type_synonym issue = "field \<Rightarrow> string"

definition required_fields :: "field list" where
  "required_fields = [Title, Type, Priority, Status, Deadline, Due_Date, Created_By, Created_On]"

definition ensure_fields :: "(field \<rightharpoonup> string) \<Rightarrow> issue" where
  "ensure_fields issue_data = (\<lambda>f. case issue_data f of None \<Rightarrow> [] | Some v \<Rightarrow> v)"

definition status_keywords :: "string list" where
  "status_keywords = [''OPEN'', ''DONE'', ''IN PROGRESS'', ''READY'', ''ACCEPTED'', ''DRAFT'', ''CLOSED'']"

definition priority_keywords :: "string list" where
  "priority_keywords = [''HIGH'', ''MEDIUM'', ''LOW'', ''VERY HIGH'']"

definition date_fields :: "field list" where
  "date_fields = [Deadline, Due_Date, Created_On]"

definition date_keywords :: "string list" where
  "date_keywords = [''JAN'', ''FEB'', ''MAR'', ''APR'', ''MAY'', ''JUN'', ''JUL'', ''AUG'', ''SEP'',
                    ''OCT'', ''NOV'', ''DEC'']"

text \<open>
  The inner loops of steps 2, 3 and 4: walk the candidate fields in order; the first one
  that is non-empty and contains a keyword is exchanged with the target field
  (\<^verbatim>\<open>temp = d[target]; d[target] = d[field]; d[field] = temp; break\<close>).
\<close>

fun swap_first :: "string list \<Rightarrow> field \<Rightarrow> field list \<Rightarrow> issue \<Rightarrow> issue" where
  "swap_first keywords target [] d = d"
| "swap_first keywords target (f # fs) d =
     (if d f \<noteq> [] \<and> any_keyword keywords (d f)
      then (let temp = d target; d1 = d(target := d f) in d1(f := temp))
      else swap_first keywords target fs d)"

text \<open>Step 1: a Type that repeats the Title is cleared.\<close>

definition check_type :: "issue \<Rightarrow> issue" where
  "check_type d = (if d Type = d Title then d(Type := []) else d)"

text \<open>Step 2: a Status without a status keyword is exchanged with Priority, Type or Deadline.\<close>

definition check_status :: "issue \<Rightarrow> issue" where
  "check_status d =
     (if d Status \<noteq> [] \<and> \<not> any_keyword status_keywords (d Status)
      then swap_first status_keywords Status [Priority, Type, Deadline] d else d)"

text \<open>Step 3: a Priority without a priority keyword is exchanged with Type or Status.\<close>

definition check_priority :: "issue \<Rightarrow> issue" where
  "check_priority d =
     (if d Priority \<noteq> [] \<and> \<not> any_keyword priority_keywords (d Priority)
      then swap_first priority_keywords Priority [Type, Status] d else d)"

text \<open>Step 4: each date field that does not look like a date is exchanged with Status,
  Priority or Type, whichever first holds a month token.\<close>

definition check_date_field :: "field \<Rightarrow> issue \<Rightarrow> issue" where
  "check_date_field date_field d =
     (if d date_field \<noteq> [] \<and> \<not> any_keyword date_keywords (d date_field)
      then swap_first date_keywords date_field [Status, Priority, Type] d else d)"

definition check_dates :: "issue \<Rightarrow> issue" where
  "check_dates d = fold check_date_field date_fields d"

text \<open>Step 5: a date-like Created By moves into the first empty date field.\<close>

fun move_created_by :: "field list \<Rightarrow> issue \<Rightarrow> issue" where
  "move_created_by [] d = d"
| "move_created_by (f # fs) d =
     (if d f = [] then (let d1 = d(f := d Created_By) in d1(Created_By := []))
      else move_created_by fs d)"

definition check_created_by :: "issue \<Rightarrow> issue" where
  "check_created_by d =
     (if d Created_By \<noteq> [] \<and> any_keyword date_keywords (d Created_By)
      then move_created_by date_fields d else d)"

text \<open>Step 6: the general shift pattern and the left rotation, assignment by assignment.\<close>

definition shift_left :: "issue \<Rightarrow> issue" where
  "shift_left d =
     (let d1 = d(Type := d Priority);
          d2 = d1(Priority := d1 Status);
          d3 = d2(Status := d2 Deadline);
          d4 = d3(Deadline := d3 Due_Date);
          d5 = d4(Due_Date := d4 Created_By);
          d6 = d5(Created_By := d5 Created_On)
      in d6(Created_On := []))"

definition check_shift :: "issue \<Rightarrow> issue" where
  "check_shift d =
     (if d Type = d Title \<and> d Priority = d Type \<and> d Status = d Priority
      then shift_left d else d)"

definition correct_issue :: "issue \<Rightarrow> issue" where
  "correct_issue d =
     check_shift (check_created_by (check_dates (check_priority (check_status (check_type d)))))"

definition validate_and_correct_issue_data :: "(field \<rightharpoonup> string) \<Rightarrow> (field \<rightharpoonup> string)" where
  "validate_and_correct_issue_data issue_data =
     (\<lambda>f. Some (correct_issue (ensure_fields issue_data) f))"

text \<open>The dictionary literal with all eight keys.\<close>

definition mk_issue ::
  "string \<Rightarrow> string \<Rightarrow> string \<Rightarrow> string \<Rightarrow> string \<Rightarrow> string \<Rightarrow> string \<Rightarrow> string \<Rightarrow> issue" where
  "mk_issue title type_text priority status deadline due_date created_by created_on =
     (\<lambda>f. case f of Title \<Rightarrow> title | Type \<Rightarrow> type_text | Priority \<Rightarrow> priority
            | Status \<Rightarrow> status | Deadline \<Rightarrow> deadline | Due_Date \<Rightarrow> due_date
            | Created_By \<Rightarrow> created_by | Created_On \<Rightarrow> created_on)"

definition raw_record ::
  "string \<Rightarrow> string \<Rightarrow> string \<Rightarrow> string \<Rightarrow> string \<Rightarrow> string \<Rightarrow> string \<Rightarrow> string
     \<Rightarrow> (field \<rightharpoonup> string)" where
  "raw_record title type_text priority status deadline due_date created_by created_on =
     (\<lambda>f. Some (mk_issue title type_text priority status deadline due_date created_by created_on f))"

section \<open>FieldExtractor: \<^verbatim>\<open>_normalize_status\<close>\<close>



section \<open>TableTypeClassifier: \<^verbatim>\<open>_detect_table_type\<close>\<close>

text \<open>
  Any Python exception. The browser driver is the function that answers an XPath query with
  the list of matching element handles, or raises.
\<close>

datatype exn = Exception

type_synonym element = nat

type_synonym driver = "string \<Rightarrow> exn + element list"

datatype table_type = standard_ui5 | responsive_table | grid_table | unknown

definition xpath_standard_ui5 :: string where
  "xpath_standard_ui5 = ''//table[contains(@class, 'sapMListTbl')]''"

definition xpath_responsive_table :: string where
  "xpath_responsive_table = ''//div[contains(@class, 'sapMListItems')]''"

definition xpath_grid_table :: string where
  "xpath_grid_table = ''//div[contains(@class, 'sapUiTable')]''"

text \<open>The body of the \<^verbatim>\<open>try\<close>: the three counts are taken first, then compared in order.\<close>

definition detect_table_type_body :: "driver \<Rightarrow> exn + table_type" where
  "detect_table_type_body find_elements =
     (case find_elements xpath_standard_ui5 of Inl e \<Rightarrow> Inl e | Inr els1 \<Rightarrow>
     (case find_elements xpath_responsive_table of Inl e \<Rightarrow> Inl e | Inr els2 \<Rightarrow>
     (case find_elements xpath_grid_table of Inl e \<Rightarrow> Inl e | Inr els3 \<Rightarrow>
        (let standard_ui5_count = length els1;
             responsive_table_count = length els2;
             grid_table_count = length els3
         in if standard_ui5_count > 0 then Inr standard_ui5
            else if responsive_table_count > 0 then Inr responsive_table
            else if grid_table_count > 0 then Inr grid_table
            else Inr unknown))))"

text \<open>The \<^verbatim>\<open>except Exception\<close> handler logs and returns \<^verbatim>\<open>"unknown"\<close>.\<close>

definition detect_table_type :: "driver \<Rightarrow> exn + table_type" where
  "detect_table_type find_elements =
     (case detect_table_type_body find_elements of Inl e \<Rightarrow> Inr unknown | Inr t \<Rightarrow> Inr t)"

section \<open>ScrollDriver: \<^verbatim>\<open>_should_finish_scrolling\<close> and \<^verbatim>\<open>scroll_to_load_all_items\<close>\<close>















section \<open>FieldExtractor: rows, titles and types\<close>






















section \<open>HarvestCoordinator: \<^verbatim>\<open>_process_table_rows\<close> and \<^verbatim>\<open>extract_issues_data\<close>\<close>





















text \<open>Two drivers for examples: one that finds only list items and a grid, and one on
  which the probe for the grid container fails although the other probes find elements.\<close>

definition list_driver :: "driver" where
  "list_driver xpath =
     (if xpath = xpath_standard_ui5 then Inr []
      else if xpath = xpath_responsive_table then Inr [1, 2] else Inr [3])"

definition stale_driver :: "driver" where
  "stale_driver xpath = (if xpath = xpath_grid_table then Inl Exception else Inr [7])"

section \<open>Properties of the record validator\<close>

lemmas validator_defs =
  validate_and_correct_issue_data_def correct_issue_def ensure_fields_def check_type_def
  check_status_def check_priority_def check_dates_def check_date_field_def
  check_created_by_def check_shift_def shift_left_def date_fields_def

lemmas keyword_defs =
  any_keyword_def status_keywords_def priority_keywords_def date_keywords_def upper_def
  upper_char_def

text \<open>
  C7. The record of scenario C, whose Type repeats the Title \<^verbatim>\<open>Fix login bug\<close>, with
  Priority \<^verbatim>\<open>High\<close> and Status \<^verbatim>\<open>OPEN\<close> and the other four fields empty, comes back
  from the validator with an empty Type and with its Title unchanged.
\<close>

theorem scenario_c_type_cleared:
  "validate_and_correct_issue_data
     (raw_record ''Fix login bug'' ''Fix login bug'' ''High'' ''OPEN'' [] [] [] []) Type = Some []
   \<and> validate_and_correct_issue_data
     (raw_record ''Fix login bug'' ''Fix login bug'' ''High'' ''OPEN'' [] [] [] []) Title
       = Some ''Fix login bug''"
  by (simp add: validator_defs keyword_defs raw_record_def mk_issue_def)


lemma swap_first_Title:
  "target \<noteq> Title \<Longrightarrow> Title \<notin> set fs \<Longrightarrow> swap_first kws target fs d Title = d Title"
  by (induction fs arbitrary: d) (auto simp: Let_def)

lemma move_created_by_Title:
  "Title \<notin> set fs \<Longrightarrow> move_created_by fs d Title = d Title"
  by (induction fs arbitrary: d) (auto simp: Let_def)

lemma check_type_Title: "check_type d Title = d Title"
  by (simp add: check_type_def)

lemma check_status_Title: "check_status d Title = d Title"
  by (simp add: check_status_def swap_first_Title)

lemma check_priority_Title: "check_priority d Title = d Title"
  by (simp add: check_priority_def swap_first_Title)

lemma check_date_field_Title: "date_field \<noteq> Title \<Longrightarrow> check_date_field date_field d Title = d Title"
  by (simp add: check_date_field_def swap_first_Title)

lemma check_dates_Title: "check_dates d Title = d Title"
  by (simp add: check_dates_def date_fields_def check_date_field_Title)

lemma check_created_by_Title: "check_created_by d Title = d Title"
  by (simp add: check_created_by_def date_fields_def move_created_by_Title)

lemma check_shift_Title: "check_shift d Title = d Title"
  by (simp add: check_shift_def shift_left_def Let_def)

lemma correct_issue_Title: "correct_issue d Title = d Title"
  by (simp add: correct_issue_def check_shift_Title check_created_by_Title check_dates_Title
      check_priority_Title check_status_Title check_type_Title)

text \<open>
  C10. For every input dictionary that has a Title key, the validator returns a dictionary
  whose Title is the input's Title: none of the six corrective steps assigns Title.
\<close>

theorem validate_keeps_title:
  "issue_data Title = Some t \<Longrightarrow> validate_and_correct_issue_data issue_data Title = Some t"
  by (simp add: validate_and_correct_issue_data_def correct_issue_Title ensure_fields_def)

theorem validate_keeps_title_witness:
  "raw_record ''Fix login bug'' ''Fix login bug'' ''High'' ''OPEN'' [] [] [] [] Title
     = Some ''Fix login bug''
   \<and> validate_and_correct_issue_data
        (raw_record ''Fix login bug'' ''Fix login bug'' ''High'' ''OPEN'' [] [] [] []) Title
     = Some ''Fix login bug''"
proof -
  have h: "raw_record ''Fix login bug'' ''Fix login bug'' ''High'' ''OPEN'' [] [] [] [] Title
     = Some ''Fix login bug''"
    by (simp add: raw_record_def mk_issue_def)
  from validate_keeps_title
      [of "raw_record ''Fix login bug'' ''Fix login bug'' ''High'' ''OPEN'' [] [] [] []"
          "''Fix login bug''", OF h] h
  show ?thesis by (rule_tac conjI)
qed

text \<open>
  C3. On a record whose Type, Priority and Status all repeat the Title
  \<^verbatim>\<open>Reset password\<close>, the remaining fields being \<^verbatim>\<open>High\<close>, \<^verbatim>\<open>OPEN\<close>,
  \<^verbatim>\<open>12 Jan 2024\<close> and \<^verbatim>\<open>I012345\<close>, the validator clears the Type in step 1, so that
  the shift pattern of step 6 is no longer there: nothing is rotated, and every field but
  Type comes back as it went in.
\<close>

theorem shifted_row_only_loses_type:
  "map (validate_and_correct_issue_data
     (raw_record ''Reset password'' ''Reset password'' ''Reset password'' ''Reset password''
        ''High'' ''OPEN'' ''12 Jan 2024'' ''I012345'')) required_fields
   = map Some [''Reset password'', [], ''Reset password'', ''Reset password'',
        ''High'', ''OPEN'', ''12 Jan 2024'', ''I012345'']"
  by code_simp











section \<open>Properties of the status normalisation\<close>







section \<open>Properties of the table type classifier\<close>

lemma detect_returns: "\<exists>t. detect_table_type find_elements = Inr t"
  by (simp add: detect_table_type_def split: sum.splits)

text \<open>
  C8. The classifier always returns a table type and never raises. When the three probes
  succeed it returns the first of standard_ui5, responsive_table, grid_table whose probe
  found at least one element, and unknown when none did; when a probe fails it returns
  unknown.
\<close>

theorem detect_table_type_first_match:
  "(\<exists>t. detect_table_type find_elements = Inr t)
   \<and> (ok xpath_standard_ui5 = Inr els1 \<and> ok xpath_responsive_table = Inr els2
        \<and> ok xpath_grid_table = Inr els3
       \<longrightarrow> detect_table_type ok =
             Inr (if length els1 > 0 then standard_ui5
                  else if length els2 > 0 then responsive_table
                  else if length els3 > 0 then grid_table else unknown))
   \<and> ((\<exists>e. failing xpath_standard_ui5 = Inl e \<or> failing xpath_responsive_table = Inl e
             \<or> failing xpath_grid_table = Inl e)
       \<longrightarrow> detect_table_type failing = Inr unknown)"
proof (intro conjI impI)
  show "\<exists>t. detect_table_type find_elements = Inr t" by (rule detect_returns)
next
  assume "ok xpath_standard_ui5 = Inr els1 \<and> ok xpath_responsive_table = Inr els2
        \<and> ok xpath_grid_table = Inr els3"
  then show "detect_table_type ok =
             Inr (if length els1 > 0 then standard_ui5
                  else if length els2 > 0 then responsive_table
                  else if length els3 > 0 then grid_table else unknown)"
    by (simp add: detect_table_type_def detect_table_type_body_def Let_def)
next
  assume "\<exists>e. failing xpath_standard_ui5 = Inl e \<or> failing xpath_responsive_table = Inl e
             \<or> failing xpath_grid_table = Inl e"
  then show "detect_table_type failing = Inr unknown"
    by (auto simp: detect_table_type_def detect_table_type_body_def Let_def split: sum.splits)
qed

theorem detect_table_type_first_match_witness:
  "(\<exists>t. detect_table_type list_driver = Inr t)
   \<and> list_driver xpath_standard_ui5 = Inr [] \<and> list_driver xpath_responsive_table = Inr [1, 2]
   \<and> list_driver xpath_grid_table = Inr [3]
   \<and> detect_table_type list_driver = Inr responsive_table
   \<and> stale_driver xpath_grid_table = Inl Exception
   \<and> detect_table_type stale_driver = Inr unknown"
proof -
  have a: "list_driver xpath_standard_ui5 = Inr [] \<and> list_driver xpath_responsive_table = Inr [1, 2]
   \<and> list_driver xpath_grid_table = Inr [3]"
    by code_simp
  have b: "stale_driver xpath_grid_table = Inl Exception"
    by code_simp
  from a b detect_table_type_first_match
      [where find_elements = list_driver and ok = list_driver and ?els1.0 = "[]"
         and ?els2.0 = "[1, 2]" and ?els3.0 = "[3]" and failing = stale_driver]
  show ?thesis by auto
qed

section \<open>Properties of the scroll driver\<close>













section \<open>Properties of the row loop and the harvest\<close>



















end
